theory Spec2Isabelle
  imports Main "HOL-Library.Word"
begin

section \<open>JavaScript strings\<close>

text \<open>
  A JavaScript string is a finite sequence of UTF-16 code units. Literals of the source
  are written through \<open>js\<close>, which reads an ASCII literal as its code units.
\<close>

type_synonym code_unit = "16 word"
type_synonym jsstring = "code_unit list"

definition js :: "string \<Rightarrow> jsstring" where
  "js s = map (\<lambda>c. of_nat (of_char c)) s"

text \<open>
  \<open>String.fromCharCode(n)\<close> for an integral number \<open>n\<close>: the argument goes through
  ToUint16, that is, it is taken modulo \<open>2 ^ 16\<close>; the result has one code unit.
\<close>

definition fromCharCode :: "int \<Rightarrow> jsstring" where
  "fromCharCode n = [word_of_int n]"

text \<open>
  \<open>String.prototype.toLowerCase\<close>. The model maps the code units of \<open>A\<close>..\<open>Z\<close>
  (65..90) to those of \<open>a\<close>..\<open>z\<close> and leaves every other code unit as it is, which is what
  ECMAScript does on strings of ASCII code units. The Unicode case mappings of code units
  from 128 on (the Kelvin sign, accented and non-Latin letters) are outside the model:
  what is proved of \<open>toLowerCase\<close> is stated for ASCII strings, \<open>isAscii\<close>.
\<close>

fun isAscii :: "jsstring \<Rightarrow> bool" where
  "isAscii [] = True"
| "isAscii (c # cs) = (c < 128 \<and> isAscii cs)"

definition isUpperAscii :: "code_unit \<Rightarrow> bool" where
  "isUpperAscii c \<longleftrightarrow> 65 \<le> c \<and> c \<le> 90"

definition lowerUnit :: "code_unit \<Rightarrow> code_unit" where
  "lowerUnit c = (if isUpperAscii c then c + 32 else c)"

definition toLowerCase :: "jsstring \<Rightarrow> jsstring" where
  "toLowerCase s = map lowerUnit s"

text \<open>
  Equality up to letter case, stated from the words of the specification and not from the
  code: two labels match when they have the same length and, position by position, the
  code units are equal or are the upper-case and lower-case form of one letter of the
  alphabet. The letters are listed, each capital with its small letter.
\<close>

definition letterPairs :: "(code_unit \<times> code_unit) list" where
  "letterPairs =
     zip (js ''ABCDEFGHIJKLMNOPQRSTUVWXYZ'') (js ''abcdefghijklmnopqrstuvwxyz'')"

definition sameLetter :: "code_unit \<Rightarrow> code_unit \<Rightarrow> bool" where
  "sameLetter a b \<longleftrightarrow> a = b \<or> (a, b) \<in> set letterPairs \<or> (b, a) \<in> set letterPairs"

definition equalIgnoringCase :: "jsstring \<Rightarrow> jsstring \<Rightarrow> bool" where
  "equalIgnoringCase s t \<longleftrightarrow> list_all2 sameLetter s t"

section \<open>The store (db.ts)\<close>

text \<open>
  The database keeps a text as UTF-8 and gives back the string that the UTF-8 decodes to.
  For a well-formed string, in which every surrogate code unit is part of a pair (a high
  one, 55296..56319, followed by a low one, 56320..57343), that is the same code units.
  A surrogate without its partner is written as U+FFFD instead; the model keeps the code
  units as they are, and what is proved of a text read back from the store is stated for
  well-formed strings, \<open>wellFormed\<close>.
\<close>

definition isHighSurrogate :: "code_unit \<Rightarrow> bool" where
  "isHighSurrogate c \<longleftrightarrow> 55296 \<le> c \<and> c \<le> 56319"

definition isLowSurrogate :: "code_unit \<Rightarrow> bool" where
  "isLowSurrogate c \<longleftrightarrow> 56320 \<le> c \<and> c \<le> 57343"

fun wellFormed :: "jsstring \<Rightarrow> bool" where
  "wellFormed [] = True"
| "wellFormed [c] = (\<not> isHighSurrogate c \<and> \<not> isLowSurrogate c)"
| "wellFormed (c # c' # cs) =
     (if isHighSurrogate c then isLowSurrogate c' \<and> wellFormed cs
      else \<not> isLowSurrogate c \<and> wellFormed (c' # cs))"

text \<open>The interface \<open>Question\<close>: the six columns written by \<open>insertQuestion\<close>.\<close>

record Question =
  id' :: jsstring
  notion_page_id :: jsstring
  leetcode_question :: jsstring
  question :: jsstring
  correct_answer :: jsstring
  explanation :: jsstring

text \<open>A question all of whose six texts are well-formed strings.\<close>

definition wellFormedQuestion :: "Question \<Rightarrow> bool" where
  "wellFormedQuestion q \<longleftrightarrow>
     wellFormed (id' q) \<and> wellFormed (notion_page_id q) \<and> wellFormed (leetcode_question q)
     \<and> wellFormed (question q) \<and> wellFormed (correct_answer q) \<and> wellFormed (explanation q)"

text \<open>
  A row of table \<open>questions\<close>: the six columns and \<open>created_at\<close>, which the table fills
  with the time of the insertion. \<open>SELECT *\<close> returns all seven.
\<close>

record question_row = Question +
  created_at :: nat

text \<open>
  A row of table \<open>attempts\<close> (interface \<open>QuestionAttempt\<close>). Column \<open>correct\<close> holds the
  number 1 or 0 that \<open>recordAttempt\<close> binds.
\<close>

record QuestionAttempt =
  attempt_id :: nat
  question_id :: jsstring
  selected_answer :: jsstring
  correct :: nat
  answered_at :: nat

text \<open>
  The database file: the two tables in insertion order, and the counter that
  \<open>AUTOINCREMENT\<close> keeps for \<open>attempts.id\<close> (the largest id ever handed out).
\<close>

record Db =
  questions :: "question_row list"
  attempts :: "QuestionAttempt list"
  attempts_seq :: nat

datatype error =
    Error jsstring
  | TypeError jsstring
  | SqliteError jsstring

text \<open>\<open>init\<close> on a fresh file: both tables exist and are empty.\<close>

definition init :: Db where
  "init = \<lparr>questions = [], attempts = [], attempts_seq = 0\<rparr>"

text \<open>
  \<open>getQuestion\<close>: \<open>SELECT * FROM questions WHERE id = ?\<close>, first row or undefined.
\<close>

definition getQuestion :: "Db \<Rightarrow> jsstring \<Rightarrow> question_row option" where
  "getQuestion db qid = find (\<lambda>r. id' r = qid) (questions db)"

text \<open>
  \<open>insertQuestion\<close>: the \<open>INSERT\<close> fails on the primary key when a row has this id
  already (the statement throws and the table is as before), else the row is appended with
  the current time as \<open>created_at\<close>.
\<close>

definition insertQuestion :: "nat \<Rightarrow> Db \<Rightarrow> Question \<Rightarrow> (error + unit) \<times> Db" where
  "insertQuestion now db q =
     (if \<exists>r \<in> set (questions db). id' r = id' q
      then (Inl (SqliteError (js ''UNIQUE constraint failed: questions.id'')), db)
      else (Inr (), db\<lparr>questions := questions db @ [Question.extend q \<lparr>created_at = now\<rparr>]\<rparr>))"

text \<open>The value \<open>recordAttempt\<close> returns: \<open>{ question: qn, correct: Boolean(correct) }\<close>.\<close>

record attempt_result =
  res_question :: question_row
  res_correct :: bool

text \<open>
  \<open>recordAttempt\<close>. The function returns the outcome (the thrown error or the returned
  object) together with the database after the call, so that what a failing call leaves
  behind is visible.
\<close>

definition recordAttempt ::
    "nat \<Rightarrow> Db \<Rightarrow> jsstring \<Rightarrow> jsstring \<Rightarrow> (error + attempt_result) \<times> Db" where
  "recordAttempt now db questionId selectedAnswer =
     (case getQuestion db questionId of
        None \<Rightarrow> (Inl (Error (js ''Question not found'')), db)
      | Some qn \<Rightarrow>
          (let correct = (if toLowerCase (correct_answer qn) = toLowerCase selectedAnswer
                          then 1 else 0 :: nat);
               row = \<lparr>attempt_id = Suc (attempts_seq db), question_id = questionId,
                      selected_answer = selectedAnswer, correct = correct,
                      answered_at = now\<rparr>
           in (Inr \<lparr>res_question = qn, res_correct = (correct \<noteq> 0)\<rparr>,
               db\<lparr>attempts := attempts db @ [row],
                  attempts_seq := Suc (attempts_seq db)\<rparr>)))"

section \<open>The batch pipeline (fetchDb.ts)\<close>

subsection \<open>Values and array helpers of JavaScript\<close>

text \<open>
  The values an operand of \<open>??\<close> can have in \<open>saveToDb\<close>: a number (the sum of two
  integral numbers), or one of the two nullish values.
\<close>

datatype jsval = Undefined | Null | Number int

text \<open>\<open>a ?? b\<close>: \<open>b\<close> when \<open>a\<close> is \<open>null\<close> or \<open>undefined\<close>, else \<open>a\<close>.\<close>

fun nullish :: "jsval \<Rightarrow> jsval \<Rightarrow> jsval" where
  "nullish Undefined b = b"
| "nullish Null b = b"
| "nullish (Number n) b = Number n"

text \<open>
  \<open>String.fromCharCode\<close> on a value: ToNumber sends \<open>undefined\<close> to NaN and \<open>null\<close> to
  0, and ToUint16 sends NaN to 0.
\<close>

fun fromCharCodeVal :: "jsval \<Rightarrow> jsstring" where
  "fromCharCodeVal (Number n) = fromCharCode n"
| "fromCharCodeVal Undefined = fromCharCode 0"
| "fromCharCodeVal Null = fromCharCode 0"

text \<open>
  \<open>Array.prototype.findIndex\<close>: the index of the first element that satisfies the
  predicate, \<open>-1\<close> when there is none.
\<close>

fun findIndexFrom :: "('a \<Rightarrow> bool) \<Rightarrow> int \<Rightarrow> 'a list \<Rightarrow> int" where
  "findIndexFrom P i [] = - 1"
| "findIndexFrom P i (x # xs) = (if P x then i else findIndexFrom P (i + 1) xs)"

definition findIndex :: "('a \<Rightarrow> bool) \<Rightarrow> 'a list \<Rightarrow> int" where
  "findIndex P xs = findIndexFrom P 0 xs"

subsection \<open>Generated questions\<close>

text \<open>
  The type that \<open>McqQuestionSchema\<close> infers, and \<open>McqQuestion\<close>, which adds the id.
\<close>

record McqOption =
  content :: jsstring
  is_correct :: bool

record McqParsed =
  mcq_question :: jsstring
  leetcode_description :: jsstring
  options :: "McqOption list"
  mcq_explanation :: jsstring

record McqQuestion = McqParsed +
  mcq_id :: jsstring

subsection \<open>generateMcqs\<close>

record LeetcodeQuestion =
  lq_id :: jsstring
  name :: jsstring
  tags :: jsstring
  difficulty :: "jsstring option"
  recentlyAttempted :: bool

text \<open>A JSON value, as \<open>JSON.parse\<close> gives it; an object lists its members.\<close>

datatype json =
    JNull
  | JBool bool
  | JNumber int
  | JString jsstring
  | JArray "json list"
  | JObject "(jsstring \<times> json) list"

text \<open>
  The combinators of the schema library that \<open>McqQuestionSchema\<close> uses, as parsers:
  \<open>z.string()\<close> and \<open>z.boolean()\<close> accept a value of that type, \<open>z.array(s)\<close> accepts an
  array of any length whose elements \<open>s\<close> accepts, and \<open>z.object\<close> accepts an object whose
  listed members are accepted (a missing member is undefined, which neither
  \<open>z.string()\<close> nor \<open>z.boolean()\<close> nor \<open>z.array\<close> accepts) and drops the others.
\<close>

fun z_string :: "json \<Rightarrow> jsstring option" where
  "z_string (JString s) = Some s"
| "z_string j = None"

fun z_boolean :: "json \<Rightarrow> bool option" where
  "z_boolean (JBool b) = Some b"
| "z_boolean j = None"

fun z_array :: "(json \<Rightarrow> 'a option) \<Rightarrow> json \<Rightarrow> 'a list option" where
  "z_array s (JArray xs) = those (map s xs)"
| "z_array s j = None"

definition member :: "(jsstring \<times> json) list \<Rightarrow> string \<Rightarrow> (json \<Rightarrow> 'a option) \<Rightarrow> 'a option" where
  "member kvs k s = (case map_of kvs (js k) of None \<Rightarrow> None | Some j \<Rightarrow> s j)"

text \<open>The schema of one option: \<open>z.object({content: z.string(), is_correct: z.boolean()})\<close>.\<close>

fun McqOptionSchema :: "json \<Rightarrow> McqOption option" where
  "McqOptionSchema (JObject kvs) =
     (case (member kvs ''content'' z_string, member kvs ''is_correct'' z_boolean) of
        (Some c, Some b) \<Rightarrow> Some \<lparr>content = c, is_correct = b\<rparr>
      | _ \<Rightarrow> None)"
| "McqOptionSchema j = None"

fun McqQuestionSchema :: "json \<Rightarrow> McqParsed option" where
  "McqQuestionSchema (JObject kvs) =
     (case (member kvs ''question'' z_string,
            member kvs ''leetcode_description'' z_string,
            member kvs ''options'' (z_array McqOptionSchema),
            member kvs ''explanation'' z_string) of
        (Some q, Some d, Some os, Some e) \<Rightarrow>
          Some \<lparr>mcq_question = q, leetcode_description = d, options = os,
                mcq_explanation = e\<rparr>
      | _ \<Rightarrow> None)"
| "McqQuestionSchema j = None"

text \<open>
  What \<open>client.messages.parse\<close> resolves to, as far as \<open>generateMcqs\<close> reads it:
  \<open>parsed_output\<close>, a value of the schema's type or null.
\<close>

record parse_response =
  parsed_output :: "McqParsed option"

text \<open>The content of the user message that \<open>generateMcqs\<close> sends for one question.\<close>

definition prompt :: "LeetcodeQuestion \<Rightarrow> jsstring" where
  "prompt q =
     js ''Leetcode Question: '' @ name q @ js ''. Tags: '' @ tags q @
     js ''. Generate a MCQ question with 4 options to test my understanding of the approach of the question.''"

text \<open>
  The loop of \<open>generateMcqs\<close>. The generation service and the id generator are outside
  the program and are parameters: \<open>client k p\<close> is the outcome of call number \<open>k\<close> with
  prompt \<open>p\<close> (the call rejects, or resolves to a response), and \<open>nanoid n\<close> is the id
  drawn when \<open>n\<close> ids have been drawn before. A call that rejects ends the function with
  the error; a response is pushed, with a new id, when its \<open>parsed_output\<close> is not null.
\<close>

fun generateMcqsFrom ::
    "(nat \<Rightarrow> jsstring \<Rightarrow> error + parse_response) \<Rightarrow> (nat \<Rightarrow> jsstring) \<Rightarrow> nat \<Rightarrow>
     McqQuestion list \<Rightarrow> LeetcodeQuestion list \<Rightarrow> error + McqQuestion list" where
  "generateMcqsFrom client nanoid k mcqs [] = Inr mcqs"
| "generateMcqsFrom client nanoid k mcqs (q # qs) =
     (case client k (prompt q) of
        Inl e \<Rightarrow> Inl e
      | Inr response \<Rightarrow>
          (case parsed_output response of
             Some parsed \<Rightarrow>
               generateMcqsFrom client nanoid (Suc k)
                 (mcqs @ [McqParsed.extend parsed \<lparr>mcq_id = nanoid (length mcqs)\<rparr>]) qs
           | None \<Rightarrow> generateMcqsFrom client nanoid (Suc k) mcqs qs))"

definition generateMcqs ::
    "(nat \<Rightarrow> jsstring \<Rightarrow> error + parse_response) \<Rightarrow> (nat \<Rightarrow> jsstring) \<Rightarrow>
     LeetcodeQuestion list \<Rightarrow> error + McqQuestion list" where
  "generateMcqs client nanoid qs = generateMcqsFrom client nanoid 0 [] qs"

subsection \<open>saveToDb\<close>

text \<open>
  The object that \<open>saveToDb\<close> hands to \<open>insertQuestion\<close> for one question.
  \<open>DATABASE_ID\<close> is the environment variable, undefined when unset. In the argument of
  \<open>String.fromCharCode\<close>, \<open>+\<close> binds tighter than \<open>??\<close>: the left operand of \<open>??\<close> is
  the sum.
\<close>

definition questionOfMcq :: "jsstring option \<Rightarrow> McqQuestion \<Rightarrow> Question" where
  "questionOfMcq DATABASE_ID mcq =
     \<lparr>id' = mcq_id mcq,
      notion_page_id = (case DATABASE_ID of None \<Rightarrow> [] | Some d \<Rightarrow> d),
      leetcode_question = leetcode_description mcq,
      question = mcq_question mcq,
      correct_answer =
        fromCharCodeVal
          (nullish (Number (65 + findIndex is_correct (options mcq))) (Number 26)),
      explanation = mcq_explanation mcq\<rparr>"

text \<open>
  The loop of \<open>saveToDb\<close>: one \<open>insertQuestion\<close> per question, in order; an insertion
  that throws ends the loop with what was inserted before.
\<close>

fun saveToDb ::
    "nat \<Rightarrow> jsstring option \<Rightarrow> Db \<Rightarrow> McqQuestion list \<Rightarrow> (error + unit) \<times> Db" where
  "saveToDb now DATABASE_ID db [] = (Inr (), db)"
| "saveToDb now DATABASE_ID db (mcq # mcqs) =
     (case insertQuestion now db (questionOfMcq DATABASE_ID mcq) of
        (Inl e, db') \<Rightarrow> (Inl e, db')
      | (Inr u, db') \<Rightarrow> saveToDb now DATABASE_ID db' mcqs)"

subsection \<open>sendToTelegram\<close>

record button =
  button_text :: jsstring
  callbackData :: jsstring

text \<open>
  The inline keyboard that \<open>sendToTelegram\<close> builds for one question (the constant
  \<open>options\<close> of the loop body): one row of one button per option, in the order of the
  options.
\<close>

definition inlineKeyboard :: "McqQuestion \<Rightarrow> button list list" where
  "inlineKeyboard mcq =
     map (\<lambda>idx.
            [\<lparr>button_text = fromCharCode (65 + int idx),
              callbackData =
                js ''answer:'' @ fromCharCode (65 + int idx) @ js '':'' @ mcq_id mcq\<rparr>])
         [0 ..< length (options mcq)]"

section \<open>The webhook (bot.ts)\<close>

subsection \<open>Decoding the callback data\<close>

text \<open>
  \<open>String.prototype.split\<close> with a separator of one code unit: the pieces between the
  occurrences of the separator; never the empty array.
\<close>

fun split :: "code_unit \<Rightarrow> jsstring \<Rightarrow> jsstring list" where
  "split sep [] = [[]]"
| "split sep (c # cs) =
     (if c = sep then [] # split sep cs
      else (case split sep cs of
              [] \<Rightarrow> [[c]]
            | p # ps \<Rightarrow> (c # p) # ps))"

text \<open>An element of an array, \<open>undefined\<close> beyond its end.\<close>

definition element :: "'a list \<Rightarrow> nat \<Rightarrow> 'a option" where
  "element xs i = (if i < length xs then Some (xs ! i) else None)"

text \<open>
  \<open>const [type, answer, questionId] = callback.data.split(":")\<close>: the first three pieces,
  each undefined when the data has too few. The separator is the colon, code unit 58.
\<close>

definition decodeCallbackData ::
    "jsstring \<Rightarrow> jsstring option \<times> jsstring option \<times> jsstring option" where
  "decodeCallbackData data =
     (let parts = split 58 data in (element parts 0, element parts 1, element parts 2))"

text \<open>
  The form of a payload, from the words of the specification and not from the code:
  \<open>kind:selectedLabel:questionId\<close>, colon-delimited, where no field has a colon in it.
  Such a string has exactly two colons.
\<close>

definition wellFormedPayload :: "jsstring \<Rightarrow> bool" where
  "wellFormedPayload p \<longleftrightarrow> count_list p 58 = 2"

subsection \<open>The request, the environment and the effects\<close>

text \<open>
  The parts of an update that the handler reads: \<open>callback.message\<close> with its chat id,
  message id and text, \<open>callback.id\<close> and \<open>callback.data\<close>. A member that the update
  lacks is undefined.
\<close>

record tg_message =
  chat_id :: int
  message_id :: int
  message_text :: jsstring

record callback_query =
  callback_id :: jsstring
  callback_data :: "jsstring option"
  callback_message :: "tg_message option"

record request_body =
  callback_query :: "callback_query option"

text \<open>
  What the world outside decides during one request: the time, whether
  \<open>TELEGRAM_BOT_TOKEN\<close> and \<open>TELEGRAM_CHAT_ID\<close> are both set, and for each of the three
  \<open>fetch\<close> calls whether its promise resolves or rejects. (\<open>fetch\<close> rejects on a network
  failure; a response with an error status resolves.)
\<close>

datatype fetch_result = Resolves | Rejects

record environment =
  now :: nat
  configured :: bool
  answerCallbackQuery_fetch :: fetch_result
  editMessageText_fetch :: fetch_result
  sendMessage_fetch :: fetch_result

text \<open>
  The three texts that \<open>handleAnswer\<close> sends, by their template and its holes; the
  wording is not modelled.
\<close>

datatype notification =
    CorrectWithStreak int
  | IncorrectWithExplanation question_row "jsstring option"
  | ErrorOccurred

text \<open>The requests that reached the chat transport, and the lines of \<open>console.error\<close>.\<close>

datatype api_call =
    AnswerCallbackQuery jsstring
  | EditMessageText int int jsstring "jsstring option"
  | SendMessage notification

datatype log_line =
    TokenOrChatIdNotDefined
  | ErrorSendingMessage
  | ErrorRecordingAttempt error

record world =
  db :: Db
  calls :: "api_call list"
  console :: "log_line list"

text \<open>
  How the handler's promise ends: \<open>res.sendStatus\<close> was called with a status, or the
  promise rejected with an error before any status was sent.
\<close>

datatype http_outcome = Status nat | Unhandled error

definition fetchFailed :: error where
  "fetchFailed = TypeError (js ''fetch failed'')"

subsection \<open>The handlers\<close>

text \<open>
  \<open>sendTelegramMessage\<close> of bot.ts: returns after a log line when the token or the chat
  id is missing; a rejected \<open>fetch\<close> is caught and logged. It never throws.
\<close>

definition sendTelegramMessage :: "environment \<Rightarrow> world \<Rightarrow> notification \<Rightarrow> world" where
  "sendTelegramMessage env w msg =
     (if \<not> configured env then w\<lparr>console := console w @ [TokenOrChatIdNotDefined]\<rparr>
      else (case sendMessage_fetch env of
              Resolves \<Rightarrow> w\<lparr>calls := calls w @ [SendMessage msg]\<rparr>
            | Rejects \<Rightarrow> w\<lparr>console := console w @ [ErrorSendingMessage]\<rparr>))"

text \<open>
  \<open>db.recordAttempt(questionId, answer)\<close> as the handler calls it, where either argument
  is undefined when the data had too few pieces. An undefined id is bound as SQL NULL,
  which equals no id, so no row comes back; \<open>undefined.toLowerCase()\<close> is a TypeError.
\<close>

definition recordAttemptCall ::
    "nat \<Rightarrow> Db \<Rightarrow> jsstring option \<Rightarrow> jsstring option \<Rightarrow> (error + attempt_result) \<times> Db" where
  "recordAttemptCall t d questionId answer =
     (case questionId of
        None \<Rightarrow> (Inl (Error (js ''Question not found'')), d)
      | Some qid \<Rightarrow>
          (case answer of
             Some a \<Rightarrow> recordAttempt t d qid a
           | None \<Rightarrow>
               (case getQuestion d qid of
                  None \<Rightarrow> (Inl (Error (js ''Question not found'')), d)
                | Some qn \<Rightarrow>
                    (Inl (TypeError (js ''Cannot read properties of undefined'')), d))))"

text \<open>
  \<open>handleAnswer\<close>. \<open>Db.getStreak\<close> is not part of db.ts as it is here and is a
  parameter: a function of the database that returns the streak or throws. Everything
  from \<open>recordAttempt\<close> to the sending of the message is inside \<open>try\<close>; the handler of
  \<open>catch\<close> logs the error and sends the error text.
\<close>

definition handleAnswer ::
    "environment \<Rightarrow> (Db \<Rightarrow> error + int) \<Rightarrow> world \<Rightarrow> jsstring option \<Rightarrow> jsstring option \<Rightarrow> world" where
  "handleAnswer env getStreak w answer questionId =
     (case recordAttemptCall (now env) (db w) questionId answer of
        (Inl e, d) \<Rightarrow>
          sendTelegramMessage env
            (w\<lparr>db := d, console := console w @ [ErrorRecordingAttempt e]\<rparr>) ErrorOccurred
      | (Inr r, d) \<Rightarrow>
          (if res_correct r then
             (case getStreak d of
                Inl e \<Rightarrow>
                  sendTelegramMessage env
                    (w\<lparr>db := d, console := console w @ [ErrorRecordingAttempt e]\<rparr>)
                    ErrorOccurred
              | Inr currentStreak \<Rightarrow>
                  sendTelegramMessage env (w\<lparr>db := d\<rparr>) (CorrectWithStreak currentStreak))
           else
             sendTelegramMessage env (w\<lparr>db := d\<rparr>)
               (IncorrectWithExplanation (res_question r) answer)))"

text \<open>\<open>answerCallbackQuery\<close>: one \<open>fetch\<close>, awaited, with no \<open>try\<close> around it.\<close>

definition answerCallbackQuery ::
    "environment \<Rightarrow> world \<Rightarrow> jsstring \<Rightarrow> (error + unit) \<times> world" where
  "answerCallbackQuery env w callbackId =
     (case answerCallbackQuery_fetch env of
        Resolves \<Rightarrow> (Inr (), w\<lparr>calls := calls w @ [AnswerCallbackQuery callbackId]\<rparr>)
      | Rejects \<Rightarrow> (Inl fetchFailed, w))"

text \<open>
  \<open>removeInlineKeyboard\<close>: reads \<open>callback.message.chat.id\<close> (a TypeError when the
  callback has no message), then one \<open>fetch\<close>, awaited, with no \<open>try\<close> around it.
\<close>

definition removeInlineKeyboard ::
    "environment \<Rightarrow> world \<Rightarrow> callback_query \<Rightarrow> jsstring option \<Rightarrow> (error + unit) \<times> world" where
  "removeInlineKeyboard env w callback answer =
     (case callback_message callback of
        None \<Rightarrow> (Inl (TypeError (js ''Cannot read properties of undefined'')), w)
      | Some m \<Rightarrow>
          (case editMessageText_fetch env of
             Resolves \<Rightarrow>
               (Inr (),
                w\<lparr>calls := calls w @
                     [EditMessageText (chat_id m) (message_id m) (message_text m) answer]\<rparr>)
           | Rejects \<Rightarrow> (Inl fetchFailed, w)))"

text \<open>
  The handler of \<open>POST /telegram-webhook\<close>. An error thrown by \<open>callback.data.split\<close>
  (no data), by \<open>answerCallbackQuery\<close> or by \<open>removeInlineKeyboard\<close> is not caught: the
  promise rejects and the last line, \<open>res.sendStatus(200)\<close>, is not reached.
\<close>

definition webhook ::
    "environment \<Rightarrow> (Db \<Rightarrow> error + int) \<Rightarrow> world \<Rightarrow> request_body \<Rightarrow> http_outcome \<times> world" where
  "webhook env getStreak w body =
     (case callback_query body of
        None \<Rightarrow> (Status 200, w)
      | Some callback \<Rightarrow>
          (case callback_data callback of
             None \<Rightarrow> (Unhandled (TypeError (js ''Cannot read properties of undefined'')), w)
           | Some data \<Rightarrow>
               (case decodeCallbackData data of
                  (type, answer, questionId) \<Rightarrow>
                    (case answerCallbackQuery env w (callback_id callback) of
                       (Inl e, w1) \<Rightarrow> (Unhandled e, w1)
                     | (Inr u, w1) \<Rightarrow>
                         (case removeInlineKeyboard env w1 callback answer of
                            (Inl e, w2) \<Rightarrow> (Unhandled e, w2)
                          | (Inr u, w2) \<Rightarrow>
                              (Status 200,
                               handleAnswer env getStreak w2 answer questionId))))))"

section \<open>The streak\<close>

text \<open>
  \<open>localDate t\<close>, a parameter, is the local calendar day (a day number) of instant \<open>t\<close>.
  A day counts when some attempt answered on that day is correct.
\<close>

definition correctOnDay :: "(nat \<Rightarrow> int) \<Rightarrow> QuestionAttempt list \<Rightarrow> int \<Rightarrow> bool" where
  "correctOnDay localDate as d \<longleftrightarrow>
     (\<exists>a \<in> set as. correct a \<noteq> 0 \<and> localDate (answered_at a) = d)"

text \<open>
  Walking backward from day \<open>d\<close> for at most \<open>n\<close> days, counting the days until the first
  one with no correct attempt.
\<close>

fun walkBack :: "(nat \<Rightarrow> int) \<Rightarrow> QuestionAttempt list \<Rightarrow> nat \<Rightarrow> int \<Rightarrow> nat" where
  "walkBack localDate as 0 d = 0"
| "walkBack localDate as (Suc n) d =
     (if correctOnDay localDate as d then Suc (walkBack localDate as n (d - 1)) else 0)"

text \<open>
  Modelled from the spec: the streak function (\<open>getCurrentStreak(asOf)\<close> in the
  specification, \<open>Db.getStreak\<close> at its call in \<open>handleAnswer\<close>) is missing from db.ts
  as it is here. Following the specification, it is the number of consecutive local
  calendar days, walking backward from the day of \<open>asOf\<close>, that have a correct attempt,
  computed from the attempts table at each call. A walk of as many days as there are
  attempts is long enough, as each counted day needs an attempt of its own.
\<close>

definition getCurrentStreak :: "(nat \<Rightarrow> int) \<Rightarrow> Db \<Rightarrow> nat \<Rightarrow> nat" where
  "getCurrentStreak localDate d asOf =
     walkBack localDate (attempts d) (length (attempts d)) (localDate asOf)"

section \<open>Example data\<close>

text \<open>A store with one question, \<open>Q1\<close>, whose correct answer is \<open>A\<close>, and no attempt.\<close>

definition exampleRow :: question_row where
  "exampleRow =
     \<lparr>id' = js ''Q1'', notion_page_id = js ''db'', leetcode_question = js ''Two Sum'',
      question = js ''Which structure?'', correct_answer = js ''A'',
      explanation = js ''A hash map'', created_at = 7\<rparr>"

definition exampleDb :: Db where
  "exampleDb = \<lparr>questions = [exampleRow], attempts = [], attempts_seq = 0\<rparr>"


text \<open>
  Two generated questions with the same id and texts whose options differ: in the
  contents, and in that the second one marks two options correct.
\<close>

definition mcqOne :: McqQuestion where
  "mcqOne =
     \<lparr>mcq_question = js ''Which structure?'', leetcode_description = js ''Two Sum'',
      options =
        [\<lparr>content = js ''hash map'', is_correct = True\<rparr>,
         \<lparr>content = js ''stack'', is_correct = False\<rparr>,
         \<lparr>content = js ''heap'', is_correct = False\<rparr>,
         \<lparr>content = js ''trie'', is_correct = False\<rparr>],
      mcq_explanation = js ''A hash map'', mcq_id = js ''Q1''\<rparr>"

definition mcqTwo :: McqQuestion where
  "mcqTwo =
     \<lparr>mcq_question = js ''Which structure?'', leetcode_description = js ''Two Sum'',
      options =
        [\<lparr>content = js ''dictionary'', is_correct = True\<rparr>,
         \<lparr>content = js ''stack'', is_correct = True\<rparr>,
         \<lparr>content = js ''heap'', is_correct = False\<rparr>,
         \<lparr>content = js ''trie'', is_correct = False\<rparr>],
      mcq_explanation = js ''A hash map'', mcq_id = js ''Q1''\<rparr>"

text \<open>A generated question none of whose options is marked correct.\<close>

definition mcqNone :: McqQuestion where
  "mcqNone =
     \<lparr>mcq_question = js ''Which structure?'', leetcode_description = js ''Two Sum'',
      options =
        [\<lparr>content = js ''stack'', is_correct = False\<rparr>,
         \<lparr>content = js ''heap'', is_correct = False\<rparr>],
      mcq_explanation = js ''Neither'', mcq_id = js ''Q2''\<rparr>"

text \<open>
  A JSON value with three options, two of them marked correct, and a member that the
  schema does not list; the value of the schema's type that it parses to; and a candidate.
\<close>

definition threeOptionsJson :: json where
  "threeOptionsJson =
     JObject
       [(js ''question'', JString (js ''Which structure?'')),
        (js ''leetcode_description'', JString (js ''Two Sum'')),
        (js ''options'',
         JArray
           [JObject [(js ''content'', JString (js ''hash map'')), (js ''is_correct'', JBool True)],
            JObject [(js ''content'', JString (js ''stack'')), (js ''is_correct'', JBool True)],
            JObject [(js ''content'', JString (js ''heap'')), (js ''is_correct'', JBool False),
                     (js ''note'', JNull)]]),
        (js ''explanation'', JString (js ''A hash map''))]"

definition threeOptionsParsed :: McqParsed where
  "threeOptionsParsed =
     \<lparr>mcq_question = js ''Which structure?'', leetcode_description = js ''Two Sum'',
      options =
        [\<lparr>content = js ''hash map'', is_correct = True\<rparr>,
         \<lparr>content = js ''stack'', is_correct = True\<rparr>,
         \<lparr>content = js ''heap'', is_correct = False\<rparr>],
      mcq_explanation = js ''A hash map''\<rparr>"

definition twoSum :: LeetcodeQuestion where
  "twoSum =
     \<lparr>lq_id = js ''p1'', name = js ''Two Sum'', tags = js ''Array, Hash Table'',
      difficulty = Some (js ''Medium''), recentlyAttempted = True\<rparr>"

text \<open>
  A callback of the button \<open>A\<close> of question \<open>Q1\<close>; a world with the example store, no
  request sent and nothing logged; an environment where the bot is configured and every
  \<open>fetch\<close> resolves, and one where the \<open>fetch\<close> of \<open>answerCallbackQuery\<close> rejects; a
  streak function that returns 1.
\<close>

definition exampleCallback :: callback_query where
  "exampleCallback =
     \<lparr>callback_id = js ''cb1'', callback_data = Some (js ''answer:A:Q1''),
      callback_message =
        Some \<lparr>chat_id = 1, message_id = 2, message_text = js ''Which structure?''\<rparr>\<rparr>"

definition exampleWorld :: world where
  "exampleWorld = \<lparr>db = exampleDb, calls = [], console = []\<rparr>"

definition onlineEnv :: environment where
  "onlineEnv =
     \<lparr>now = 9, configured = True, answerCallbackQuery_fetch = Resolves,
      editMessageText_fetch = Resolves, sendMessage_fetch = Resolves\<rparr>"

definition offlineEnv :: environment where
  "offlineEnv =
     \<lparr>now = 9, configured = True, answerCallbackQuery_fetch = Rejects,
      editMessageText_fetch = Rejects, sendMessage_fetch = Rejects\<rparr>"

definition streakOne :: "Db \<Rightarrow> error + int" where
  "streakOne d = Inr 1"

text \<open>
  Days counted in UTC, and a store with correct attempts on days 10 and 11, a wrong one
  on day 12 and a correct one on day 13.
\<close>

definition utcDay :: "nat \<Rightarrow> int" where
  "utcDay t = int (t div 86400)"

definition streakDb :: Db where
  "streakDb =
     \<lparr>questions = [exampleRow],
      attempts =
        [\<lparr>attempt_id = 1, question_id = js ''Q1'', selected_answer = js ''A'', correct = 1,
          answered_at = 10 * 86400 + 60\<rparr>,
         \<lparr>attempt_id = 2, question_id = js ''Q1'', selected_answer = js ''a'', correct = 1,
          answered_at = 11 * 86400 + 60\<rparr>,
         \<lparr>attempt_id = 3, question_id = js ''Q1'', selected_answer = js ''B'', correct = 0,
          answered_at = 12 * 86400 + 60\<rparr>,
         \<lparr>attempt_id = 4, question_id = js ''Q1'', selected_answer = js ''A'', correct = 1,
          answered_at = 13 * 86400 + 60\<rparr>],
      attempts_seq = 4\<rparr>"

section \<open>Properties of the store\<close>

subsection \<open>Case-insensitive comparison\<close>

lemma letterPairs_upt:
  "letterPairs = map (\<lambda>n. (of_nat n, of_nat n + 32)) [65 ..< 91]"
  by (simp add: letterPairs_def js_def)

lemma set_letterPairs:
  "set letterPairs = (\<lambda>n. (of_nat n, of_nat n + 32)) ` {65 ..< 91}"
  unfolding letterPairs_upt set_map set_upt ..

text \<open>The listed pairs are the capitals 65..90, each with the code unit 32 above it.\<close>

lemma letterPairs_iff: "(a, b) \<in> set letterPairs \<longleftrightarrow> isUpperAscii a \<and> b = a + 32"
proof
  assume "(a, b) \<in> set letterPairs"
  then obtain n where n: "n \<in> {65 ..< 91}" and ab: "(a, b) = (of_nat n, of_nat n + 32)"
    unfolding set_letterPairs by (rule imageE)
  from n have "unat (of_nat n :: code_unit) = n"
    by (simp add: unat_of_nat)
  with n ab have "isUpperAscii a"
    by (simp add: isUpperAscii_def word_le_nat_alt)
  with ab show "isUpperAscii a \<and> b = a + 32" by simp
next
  assume r: "isUpperAscii a \<and> b = a + 32"
  then have "unat a \<in> {65 ..< 91}"
    by (simp add: isUpperAscii_def word_le_nat_alt)
  then have "(of_nat (unat a), of_nat (unat a) + 32) \<in> set letterPairs"
    unfolding set_letterPairs by (rule imageI)
  with r show "(a, b) \<in> set letterPairs" by simp
qed

lemma lowerUnit_eq_iff: "lowerUnit a = lowerUnit b \<longleftrightarrow> sameLetter a b"
  unfolding sameLetter_def letterPairs_iff
  unfolding lowerUnit_def isUpperAscii_def
  by unat_arith

lemma toLowerCase_eq_iff: "toLowerCase s = toLowerCase t \<longleftrightarrow> equalIgnoringCase s t"
  unfolding toLowerCase_def equalIgnoringCase_def
proof (induction s arbitrary: t)
  case Nil
  then show ?case by simp
next
  case (Cons a s)
  then show ?case by (cases t) (simp_all add: lowerUnit_eq_iff)
qed

subsection \<open>Lookup\<close>

lemma getQuestion_None_iff:
  "getQuestion d qid = None \<longleftrightarrow> (\<forall>r \<in> set (questions d). id' r \<noteq> qid)"
  unfolding getQuestion_def by (auto simp: find_None_iff)

lemma getQuestion_Some_id: "getQuestion d qid = Some qn \<Longrightarrow> id' qn = qid"
  unfolding getQuestion_def by (auto simp: find_Some_iff)

lemma getQuestion_cong: "questions d' = questions d \<Longrightarrow> getQuestion d' qid = getQuestion d qid"
  by (simp add: getQuestion_def)

subsection \<open>recordAttempt\<close>

lemma recordAttempt_None:
  "getQuestion d qid = None \<Longrightarrow>
   recordAttempt t d qid sel = (Inl (Error (js ''Question not found'')), d)"
  by (simp add: recordAttempt_def)

lemma recordAttempt_Some:
  "getQuestion d qid = Some qn \<Longrightarrow>
   recordAttempt t d qid sel =
     (Inr \<lparr>res_question = qn,
           res_correct = (toLowerCase (correct_answer qn) = toLowerCase sel)\<rparr>,
      d\<lparr>attempts := attempts d @
           [\<lparr>attempt_id = Suc (attempts_seq d), question_id = qid, selected_answer = sel,
             correct = (if toLowerCase (correct_answer qn) = toLowerCase sel then 1 else 0),
             answered_at = t\<rparr>],
        attempts_seq := Suc (attempts_seq d)\<rparr>)"
  by (simp add: recordAttempt_def Let_def)

lemma recordAttempt_questions: "questions (snd (recordAttempt t d qid sel)) = questions d"
  by (cases "getQuestion d qid") (simp_all add: recordAttempt_None recordAttempt_Some)

lemma recordAttempt_keeps_attempts:
  "take (length (attempts d)) (attempts (snd (recordAttempt t d qid sel))) = attempts d"
  by (cases "getQuestion d qid") (simp_all add: recordAttempt_None recordAttempt_Some)

text \<open>
  C1. \<open>recordAttempt\<close> on an id that names no question throws the error
  "Question not found" and leaves the database, so also the attempts table, as it was.
  On an id that names a question it returns that question and the correctness flag, and
  the attempts table grows by exactly one row, for this id and this answer.
\<close>

theorem recordAttempt_unknown_or_known:
  "(getQuestion d questionId = None \<longrightarrow>
      recordAttempt t d questionId selectedAnswer
        = (Inl (Error (js ''Question not found'')), d))
   \<and> (\<forall>qn. getQuestion d questionId = Some qn \<longrightarrow>
      (\<exists>row d'.
         recordAttempt t d questionId selectedAnswer
           = (Inr \<lparr>res_question = qn,
                    res_correct =
                      (toLowerCase (correct_answer qn) = toLowerCase selectedAnswer)\<rparr>, d')
         \<and> attempts d' = attempts d @ [row]
         \<and> question_id row = questionId
         \<and> selected_answer row = selectedAnswer
         \<and> (correct row \<noteq> 0)
             = (toLowerCase (correct_answer qn) = toLowerCase selectedAnswer)))"
  by (simp add: recordAttempt_None recordAttempt_Some)

lemma getQuestion_exampleDb_Q1: "getQuestion exampleDb (js ''Q1'') = Some exampleRow"
  by (simp add: getQuestion_def exampleDb_def exampleRow_def js_def)

lemma getQuestion_exampleDb_Q999: "getQuestion exampleDb (js ''Q999'') = None"
  by (simp add: getQuestion_def exampleDb_def exampleRow_def js_def)

theorem recordAttempt_unknown_or_known_witness:
  "getQuestion exampleDb (js ''Q999'') = None
   \<and> recordAttempt 9 exampleDb (js ''Q999'') (js ''A'')
       = (Inl (Error (js ''Question not found'')), exampleDb)
   \<and> getQuestion exampleDb (js ''Q1'') = Some exampleRow
   \<and> fst (recordAttempt 9 exampleDb (js ''Q1'') (js ''B''))
       = Inr \<lparr>res_question = exampleRow, res_correct = False\<rparr>
   \<and> length (attempts (snd (recordAttempt 9 exampleDb (js ''Q1'') (js ''B'')))) = 1"
proof -
  have unknown: "getQuestion exampleDb (js ''Q999'') = None"
    by (rule getQuestion_exampleDb_Q999)
  have known: "getQuestion exampleDb (js ''Q1'') = Some exampleRow"
    by (rule getQuestion_exampleDb_Q1)
  have differ: "toLowerCase (correct_answer exampleRow) \<noteq> toLowerCase (js ''B'')"
    by (simp add: exampleRow_def js_def toLowerCase_def lowerUnit_def isUpperAscii_def)
  from recordAttempt_unknown_or_known [of exampleDb "js ''Q999''" 9 "js ''A''"] unknown
  have first: "recordAttempt 9 exampleDb (js ''Q999'') (js ''A'')
       = (Inl (Error (js ''Question not found'')), exampleDb)"
    by simp
  from recordAttempt_unknown_or_known [of exampleDb "js ''Q1''" 9 "js ''B''"] known
  obtain row d' where
    "recordAttempt 9 exampleDb (js ''Q1'') (js ''B'')
       = (Inr \<lparr>res_question = exampleRow,
                res_correct = (toLowerCase (correct_answer exampleRow) = toLowerCase (js ''B''))\<rparr>,
          d')"
    and "attempts d' = attempts exampleDb @ [row]"
    by auto
  with differ have second:
    "fst (recordAttempt 9 exampleDb (js ''Q1'') (js ''B''))
       = Inr \<lparr>res_question = exampleRow, res_correct = False\<rparr>"
    "length (attempts (snd (recordAttempt 9 exampleDb (js ''Q1'') (js ''B'')))) = 1"
    by (simp_all add: exampleDb_def)
  from unknown known first second show ?thesis by simp
qed

text \<open>
  C2. For a question that exists, when the selected label and the stored correct answer
  are ASCII strings, the flag that \<open>recordAttempt\<close> returns and the flag it stores in the
  new row are both true exactly when the selected label and the stored correct answer
  are equal up to letter case.
\<close>

theorem recordAttempt_correct_iff_equalIgnoringCase:
  assumes "getQuestion d questionId = Some qn"
    and "isAscii selectedAnswer"
    and "isAscii (correct_answer qn)"
  shows "\<exists>res d'.
           recordAttempt t d questionId selectedAnswer = (Inr res, d')
           \<and> res_correct res = equalIgnoringCase selectedAnswer (correct_answer qn)
           \<and> (correct (last (attempts d')) \<noteq> 0)
               = equalIgnoringCase selectedAnswer (correct_answer qn)"
proof -
  have "(toLowerCase (correct_answer qn) = toLowerCase selectedAnswer)
          = equalIgnoringCase selectedAnswer (correct_answer qn)"
    using toLowerCase_eq_iff [of selectedAnswer "correct_answer qn"] by auto
  with assms(1) show ?thesis
    by (simp add: recordAttempt_Some)
qed

theorem recordAttempt_correct_iff_equalIgnoringCase_witness:
  "getQuestion exampleDb (js ''Q1'') = Some exampleRow
   \<and> isAscii (js ''a'') \<and> isAscii (js ''B'') \<and> isAscii (correct_answer exampleRow)
   \<and> equalIgnoringCase (js ''a'') (correct_answer exampleRow)
   \<and> equalIgnoringCase (js ''B'') (correct_answer exampleRow) = False
   \<and> (\<exists>res d'.
         recordAttempt 9 exampleDb (js ''Q1'') (js ''a'') = (Inr res, d')
         \<and> res_correct res
         \<and> correct (last (attempts d')) \<noteq> 0)
   \<and> (\<exists>res d'.
         recordAttempt 9 exampleDb (js ''Q1'') (js ''B'') = (Inr res, d')
         \<and> res_correct res = False
         \<and> correct (last (attempts d')) = 0)"
proof -
  have known: "getQuestion exampleDb (js ''Q1'') = Some exampleRow"
    by (rule getQuestion_exampleDb_Q1)
  have ascii: "isAscii (js ''a'')" "isAscii (js ''B'')" "isAscii (correct_answer exampleRow)"
    by (simp_all add: exampleRow_def js_def)
  have same: "equalIgnoringCase (js ''a'') (correct_answer exampleRow)"
    by (simp add: equalIgnoringCase_def sameLetter_def letterPairs_def exampleRow_def js_def)
  have other: "equalIgnoringCase (js ''B'') (correct_answer exampleRow) = False"
    by (simp add: equalIgnoringCase_def sameLetter_def letterPairs_def exampleRow_def js_def)
  from recordAttempt_correct_iff_equalIgnoringCase [OF known ascii(1) ascii(3), of 9] same
  have right: "\<exists>res d'.
         recordAttempt 9 exampleDb (js ''Q1'') (js ''a'') = (Inr res, d')
         \<and> res_correct res
         \<and> correct (last (attempts d')) \<noteq> 0"
    by simp
  from recordAttempt_correct_iff_equalIgnoringCase [OF known ascii(2) ascii(3), of 9] other
  have wrong: "\<exists>res d'.
         recordAttempt 9 exampleDb (js ''Q1'') (js ''B'') = (Inr res, d')
         \<and> res_correct res = False
         \<and> correct (last (attempts d')) = 0"
    by simp
  from known ascii same other right wrong show ?thesis by simp
qed

text \<open>
  C8. Two calls of \<open>recordAttempt\<close> with the same existing id and the same label both
  succeed; the attempts table afterwards is the old table followed by two new rows, one
  per call, for this id and label; the questions table is the same after each call. And
  whatever the arguments are, a call leaves the questions table and the rows that the
  attempts table had before as they were.
\<close>

theorem recordAttempt_twice_appends:
  "(\<forall>qn. getQuestion d questionId = Some qn \<longrightarrow>
      (\<exists>res1 d1 res2 d2 row1 row2.
         recordAttempt t1 d questionId selectedAnswer = (Inr res1, d1)
         \<and> recordAttempt t2 d1 questionId selectedAnswer = (Inr res2, d2)
         \<and> attempts d2 = attempts d @ [row1, row2]
         \<and> question_id row1 = questionId \<and> selected_answer row1 = selectedAnswer
         \<and> question_id row2 = questionId \<and> selected_answer row2 = selectedAnswer
         \<and> attempt_id row1 < attempt_id row2
         \<and> questions d1 = questions d \<and> questions d2 = questions d
         \<and> getQuestion d2 questionId = Some qn))
   \<and> questions (snd (recordAttempt t1 d questionId selectedAnswer)) = questions d
   \<and> take (length (attempts d)) (attempts (snd (recordAttempt t1 d questionId selectedAnswer)))
       = attempts d"
proof -
  have "\<exists>res1 d1 res2 d2 row1 row2.
         recordAttempt t1 d questionId selectedAnswer = (Inr res1, d1)
         \<and> recordAttempt t2 d1 questionId selectedAnswer = (Inr res2, d2)
         \<and> attempts d2 = attempts d @ [row1, row2]
         \<and> question_id row1 = questionId \<and> selected_answer row1 = selectedAnswer
         \<and> question_id row2 = questionId \<and> selected_answer row2 = selectedAnswer
         \<and> attempt_id row1 < attempt_id row2
         \<and> questions d1 = questions d \<and> questions d2 = questions d
         \<and> getQuestion d2 questionId = Some qn"
    if known: "getQuestion d questionId = Some qn" for qn
  proof -
    define c :: nat where
      "c = (if toLowerCase (correct_answer qn) = toLowerCase selectedAnswer then 1 else 0)"
    define row1 where
      "row1 = \<lparr>attempt_id = Suc (attempts_seq d), question_id = questionId,
               selected_answer = selectedAnswer, correct = c, answered_at = t1\<rparr>"
    define d1 where
      "d1 = d\<lparr>attempts := attempts d @ [row1], attempts_seq := Suc (attempts_seq d)\<rparr>"
    define row2 where
      "row2 = \<lparr>attempt_id = Suc (attempts_seq d1), question_id = questionId,
               selected_answer = selectedAnswer, correct = c, answered_at = t2\<rparr>"
    define d2 where
      "d2 = d1\<lparr>attempts := attempts d1 @ [row2], attempts_seq := Suc (attempts_seq d1)\<rparr>"
    have known1: "getQuestion d1 questionId = Some qn"
      using known by (simp add: getQuestion_def d1_def)
    have known2: "getQuestion d2 questionId = Some qn"
      using known1 by (simp add: getQuestion_def d2_def)
    have call1: "recordAttempt t1 d questionId selectedAnswer
                   = (Inr \<lparr>res_question = qn, res_correct = (c \<noteq> 0)\<rparr>, d1)"
      by (simp add: recordAttempt_Some [OF known] d1_def row1_def c_def)
    have call2: "recordAttempt t2 d1 questionId selectedAnswer
                   = (Inr \<lparr>res_question = qn, res_correct = (c \<noteq> 0)\<rparr>, d2)"
      by (simp add: recordAttempt_Some [OF known1] d2_def row2_def c_def)
    have rows: "attempts d2 = attempts d @ [row1, row2]"
      by (simp add: d2_def d1_def)
    have ids: "attempt_id row1 < attempt_id row2"
      by (simp add: row1_def row2_def d1_def)
    have frame: "questions d1 = questions d" "questions d2 = questions d"
      by (simp_all add: d1_def d2_def)
    have fields: "question_id row1 = questionId" "selected_answer row1 = selectedAnswer"
      "question_id row2 = questionId" "selected_answer row2 = selectedAnswer"
      by (simp_all add: row1_def row2_def)
    from call1 call2 rows ids frame fields known2 show ?thesis by blast
  qed
  then show ?thesis
    by (simp add: recordAttempt_questions recordAttempt_keeps_attempts)
qed

theorem recordAttempt_twice_appends_witness:
  "getQuestion exampleDb (js ''Q1'') = Some exampleRow
   \<and> (\<exists>res1 d1 res2 d2 row1 row2.
         recordAttempt 9 exampleDb (js ''Q1'') (js ''A'') = (Inr res1, d1)
         \<and> recordAttempt 10 d1 (js ''Q1'') (js ''A'') = (Inr res2, d2)
         \<and> attempts d2 = [row1, row2]
         \<and> questions d2 = [exampleRow])"
proof -
  have known: "getQuestion exampleDb (js ''Q1'') = Some exampleRow"
    by (rule getQuestion_exampleDb_Q1)
  from recordAttempt_twice_appends [of exampleDb "js ''Q1''" 9 "js ''A''" 10] known
  obtain res1 d1 res2 d2 row1 row2 where
    "recordAttempt 9 exampleDb (js ''Q1'') (js ''A'') = (Inr res1, d1)"
    "recordAttempt 10 d1 (js ''Q1'') (js ''A'') = (Inr res2, d2)"
    "attempts d2 = attempts exampleDb @ [row1, row2]"
    "questions d2 = questions exampleDb"
    by blast
  then have "\<exists>res1 d1 res2 d2 row1 row2.
         recordAttempt 9 exampleDb (js ''Q1'') (js ''A'') = (Inr res1, d1)
         \<and> recordAttempt 10 d1 (js ''Q1'') (js ''A'') = (Inr res2, d2)
         \<and> attempts d2 = [row1, row2]
         \<and> questions d2 = [exampleRow]"
    by (simp add: exampleDb_def)
  with known show ?thesis by simp
qed

section \<open>Properties of the batch pipeline\<close>

subsection \<open>The stored correct answer\<close>

lemma findIndexFrom_none: "\<forall>x \<in> set xs. \<not> P x \<Longrightarrow> findIndexFrom P i xs = - 1"
  by (induction xs arbitrary: i) simp_all

lemma findIndex_none: "\<forall>x \<in> set xs. \<not> P x \<Longrightarrow> findIndex P xs = - 1"
  by (simp add: findIndex_def findIndexFrom_none)

text \<open>
  C10. In \<open>saveToDb\<close> the operand \<open>?? 26\<close> is never taken: for every list of options
  the argument of \<open>String.fromCharCode\<close> is the sum \<open>65 + findIndex(...)\<close> itself, so the
  stored \<open>correct_answer\<close> is the character with that code, and it is \<open>@\<close> (code 64) when
  no option is marked correct.
\<close>

theorem saveToDb_fallback_is_dead:
  "nullish (Number (65 + findIndex is_correct (options mcq))) (Number 26)
     = Number (65 + findIndex is_correct (options mcq))
   \<and> correct_answer (questionOfMcq DATABASE_ID mcq)
       = fromCharCode (65 + findIndex is_correct (options mcq))
   \<and> ((\<forall>opt \<in> set (options mcq). \<not> is_correct opt) \<longrightarrow>
        correct_answer (questionOfMcq DATABASE_ID mcq) = js ''@'')"
proof -
  have "fromCharCode (65 + findIndex is_correct (options mcq)) = js ''@''"
    if "\<forall>opt \<in> set (options mcq). \<not> is_correct opt"
    using findIndex_none [OF that] by (simp add: fromCharCode_def js_def)
  then show ?thesis
    by (simp add: questionOfMcq_def)
qed

theorem saveToDb_fallback_is_dead_witness:
  "map is_correct (options mcqNone) = [False, False]
   \<and> correct_answer (questionOfMcq None mcqNone) = js ''@''
   \<and> correct_answer (questionOfMcq None mcqOne) = js ''A''"
proof -
  have none: "\<forall>opt \<in> set (options mcqNone). \<not> is_correct opt"
    by (simp add: mcqNone_def)
  have idx: "findIndex is_correct (options mcqOne) = 0"
    by (simp add: findIndex_def mcqOne_def)
  from saveToDb_fallback_is_dead [of mcqNone None] none
  have "correct_answer (questionOfMcq None mcqNone) = js ''@''"
    by blast
  moreover from saveToDb_fallback_is_dead [of mcqOne None] idx
  have "correct_answer (questionOfMcq None mcqOne) = js ''A''"
    by (simp add: fromCharCode_def js_def)
  ultimately show ?thesis by (simp add: mcqNone_def)
qed

subsection \<open>The callback data\<close>

lemma split_without_sep: "sep \<notin> set s \<Longrightarrow> split sep s = [s]"
  by (induction s) auto

lemma split_at_first_sep: "sep \<notin> set a \<Longrightarrow> split sep (a @ sep # b) = a # split sep b"
  by (induction a) auto

lemma split_three_fields:
  assumes "sep \<notin> set a" "sep \<notin> set b" "sep \<notin> set c"
  shows "split sep (a @ sep # b @ sep # c) = [a, b, c]"
  using assms by (simp add: split_at_first_sep split_without_sep)

lemma js_answer_colon: "js ''answer:'' = js ''answer'' @ [58]"
  by (simp add: js_def)

lemma colon_notin_answer: "58 \<notin> set (js ''answer'')"
  by (simp add: js_def)

text \<open>
  C4. For a question whose id has no colon, the callback data of the button of option
  \<open>idx\<close>, which \<open>sendToTelegram\<close> builds as \<open>answer:\<close>, the label, a colon and the id,
  is decoded by the webhook into that same label and that same id. The label is
  \<open>String.fromCharCode(65 + idx)\<close>; it is required not to be the colon itself, which holds
  for every label from \<open>A\<close> on up to option number 65528.
\<close>

theorem callback_data_roundtrip:
  assumes "idx < length (options mcq)"
    and "58 \<notin> set (mcq_id mcq)"
    and "fromCharCode (65 + int idx) \<noteq> js '':''"
  shows "decodeCallbackData (callbackData (hd (inlineKeyboard mcq ! idx)))
           = (Some (js ''answer''), Some (fromCharCode (65 + int idx)), Some (mcq_id mcq))"
proof -
  have label: "58 \<notin> set (fromCharCode (65 + int idx))"
    using assms(3) by (simp add: fromCharCode_def js_def)
  have "callbackData (hd (inlineKeyboard mcq ! idx))
          = js ''answer'' @ 58 # fromCharCode (65 + int idx) @ 58 # mcq_id mcq"
    using assms(1) by (simp add: inlineKeyboard_def js_answer_colon) (simp add: js_def)
  then have "split 58 (callbackData (hd (inlineKeyboard mcq ! idx)))
          = [js ''answer'', fromCharCode (65 + int idx), mcq_id mcq]"
    using split_three_fields [OF colon_notin_answer label assms(2)] by simp
  then show ?thesis
    by (simp add: decodeCallbackData_def element_def)
qed

theorem callback_data_roundtrip_witness:
  "1 < length (options mcqOne) \<and> 58 \<notin> set (mcq_id mcqOne)
   \<and> fromCharCode (65 + int 1) \<noteq> js '':''
   \<and> callbackData (hd (inlineKeyboard mcqOne ! 1)) = js ''answer:B:Q1''
   \<and> decodeCallbackData (js ''answer:B:Q1'') = (Some (js ''answer''), Some (js ''B''), Some (js ''Q1''))"
proof -
  have h1: "1 < length (options mcqOne)" by (simp add: mcqOne_def)
  have h2: "58 \<notin> set (mcq_id mcqOne)" by (simp add: mcqOne_def js_def)
  have h3: "fromCharCode (65 + int 1) \<noteq> js '':''" by (simp add: fromCharCode_def js_def)
  have data: "callbackData (hd (inlineKeyboard mcqOne ! 1)) = js ''answer:B:Q1''"
    using h1 by (simp add: inlineKeyboard_def) (simp add: mcqOne_def fromCharCode_def js_def)
  have "fromCharCode (65 + int 1) = js ''B''" "mcq_id mcqOne = js ''Q1''"
    by (simp_all add: fromCharCode_def js_def mcqOne_def)
  with callback_data_roundtrip [OF h1 h2 h3] data
  have "decodeCallbackData (js ''answer:B:Q1'')
          = (Some (js ''answer''), Some (js ''B''), Some (js ''Q1''))"
    by simp
  with h1 h2 h3 data show ?thesis by simp
qed

subsection \<open>What the store keeps of a question\<close>

lemma find_snoc_fresh: "\<forall>x \<in> set xs. \<not> P x \<Longrightarrow> P y \<Longrightarrow> find P (xs @ [y]) = Some y"
  by (induction xs) simp_all

lemma insertQuestion_fresh:
  "\<forall>r \<in> set (questions d). id' r \<noteq> id' q \<Longrightarrow>
   insertQuestion t d q
     = (Inr (), d\<lparr>questions := questions d @ [Question.extend q \<lparr>created_at = t\<rparr>]\<rparr>)"
  by (auto simp: insertQuestion_def)

lemma id_extend: "id' (Question.extend q ext) = id' q"
  by (simp add: Question.defs)

lemma truncate_extend: "Question.truncate (Question.extend q ext) = q"
  by (simp add: Question.defs)

text \<open>
  C7, as the code has it. A question row whose six texts are well-formed strings,
  inserted with \<open>insertQuestion\<close> under an id that the table does not hold yet, is what
  \<open>getQuestion\<close> returns for that id: the six columns as given, and the time of the
  insertion. The row has no column for the options.
\<close>

theorem insertQuestion_getQuestion_roundtrip:
  assumes "wellFormedQuestion q"
    and "\<forall>r \<in> set (questions d). id' r \<noteq> id' q"
  shows "\<exists>d' row.
           insertQuestion t d q = (Inr (), d')
           \<and> getQuestion d' (id' q) = Some row
           \<and> Question.truncate row = q
           \<and> created_at row = t"
proof -
  let ?row = "Question.extend q \<lparr>created_at = t\<rparr>"
  let ?d' = "d\<lparr>questions := questions d @ [?row]\<rparr>"
  have "insertQuestion t d q = (Inr (), ?d')"
    by (rule insertQuestion_fresh [OF assms(2)])
  moreover have "getQuestion ?d' (id' q) = Some ?row"
  proof -
    have "find (\<lambda>r. id' r = id' q) (questions d @ [?row]) = Some ?row"
      using assms(2) by (intro find_snoc_fresh) (simp_all add: id_extend)
    then show ?thesis by (simp add: getQuestion_def)
  qed
  moreover have "Question.truncate ?row = q"
    by (rule truncate_extend)
  moreover have "created_at ?row = t"
    by (simp add: Question.defs)
  ultimately show ?thesis by blast
qed

theorem insertQuestion_getQuestion_roundtrip_witness:
  "map id' (questions exampleDb) = [js ''Q1'']
   \<and> id' (questionOfMcq None mcqNone) = js ''Q2''
   \<and> wellFormedQuestion (questionOfMcq None mcqNone)
   \<and> (\<exists>d' row.
         insertQuestion 5 exampleDb (questionOfMcq None mcqNone) = (Inr (), d')
         \<and> getQuestion d' (js ''Q2'') = Some row
         \<and> Question.truncate row = questionOfMcq None mcqNone
         \<and> correct_answer row = js ''@''
         \<and> created_at row = 5)"
proof -
  have table: "map id' (questions exampleDb) = [js ''Q1'']"
    by (simp add: exampleDb_def exampleRow_def)
  have key: "id' (questionOfMcq None mcqNone) = js ''Q2''"
    by (simp add: questionOfMcq_def mcqNone_def)
  have fresh: "\<forall>r \<in> set (questions exampleDb). id' r \<noteq> id' (questionOfMcq None mcqNone)"
    by (simp add: key) (simp add: exampleDb_def exampleRow_def js_def)
  have label: "correct_answer (questionOfMcq None mcqNone) = js ''@''"
    by (simp add: questionOfMcq_def mcqNone_def findIndex_def fromCharCode_def js_def)
  have formed: "wellFormedQuestion (questionOfMcq None mcqNone)"
    by (simp add: wellFormedQuestion_def questionOfMcq_def mcqNone_def findIndex_def
        fromCharCode_def js_def isHighSurrogate_def isLowSurrogate_def)
  from insertQuestion_getQuestion_roundtrip [OF formed fresh, of 5]
  obtain d' row where got:
    "insertQuestion 5 exampleDb (questionOfMcq None mcqNone) = (Inr (), d')"
    "getQuestion d' (id' (questionOfMcq None mcqNone)) = Some row"
    "Question.truncate row = questionOfMcq None mcqNone"
    "created_at row = 5"
    by blast
  from got(3) have "correct_answer row = correct_answer (questionOfMcq None mcqNone)"
    by (metis Question.select_convs(5) Question.truncate_def)
  with got key label have "\<exists>d' row.
         insertQuestion 5 exampleDb (questionOfMcq None mcqNone) = (Inr (), d')
         \<and> getQuestion d' (js ''Q2'') = Some row
         \<and> Question.truncate row = questionOfMcq None mcqNone
         \<and> correct_answer row = js ''@''
         \<and> created_at row = 5"
    by auto
  with table key formed show ?thesis by simp
qed

text \<open>
  Two generated questions with different options are stored as the same row, so the
  options cannot be read back from the store: a counterexample to C7 as the
  specification states it.
\<close>

theorem options_not_stored:
  "fst (saveToDb 5 None init [mcqOne]) = Inr ()
   \<and> fst (saveToDb 5 None init [mcqTwo]) = Inr ()
   \<and> getQuestion (snd (saveToDb 5 None init [mcqOne])) (js ''Q1'')
       = getQuestion (snd (saveToDb 5 None init [mcqTwo])) (js ''Q1'')
   \<and> getQuestion (snd (saveToDb 5 None init [mcqOne])) (js ''Q1'') \<noteq> None
   \<and> map content (options mcqOne) \<noteq> map content (options mcqTwo)
   \<and> map is_correct (options mcqOne) \<noteq> map is_correct (options mcqTwo)"
proof -
  have same: "questionOfMcq None mcqOne = questionOfMcq None mcqTwo"
    by (simp add: questionOfMcq_def mcqOne_def mcqTwo_def findIndex_def)
  have key: "id' (questionOfMcq None mcqOne) = js ''Q1''"
    by (simp add: questionOfMcq_def mcqOne_def)
  have saved: "saveToDb 5 None init [mcqOne]
      = (Inr (), init\<lparr>questions :=
                        [Question.extend (questionOfMcq None mcqOne) \<lparr>created_at = 5\<rparr>]\<rparr>)"
    by (simp add: insertQuestion_def init_def)
  have saved': "saveToDb 5 None init [mcqTwo] = saveToDb 5 None init [mcqOne]"
    by (simp add: same)
  have found: "getQuestion (snd (saveToDb 5 None init [mcqOne])) (js ''Q1'') \<noteq> None"
    unfolding saved by (simp add: getQuestion_def id_extend key)
  have differ: "map content (options mcqOne) \<noteq> map content (options mcqTwo)"
    "map is_correct (options mcqOne) \<noteq> map is_correct (options mcqTwo)"
    by (simp_all add: mcqOne_def mcqTwo_def js_def)
  from saved saved' found differ show ?thesis by simp
qed

subsection \<open>What generateMcqs accepts\<close>

lemma McqQuestionSchema_threeOptions:
  "McqQuestionSchema threeOptionsJson = Some threeOptionsParsed"
  by (simp add: threeOptionsJson_def threeOptionsParsed_def member_def js_def)

lemma generateMcqsFrom_parsed:
  "generateMcqsFrom client nanoid k acc qs = Inr mcqs \<Longrightarrow>
   map McqParsed.truncate mcqs
     = map McqParsed.truncate acc @
       List.map_filter
         (\<lambda>(i, q). case client i (prompt q) of Inl e \<Rightarrow> None | Inr r \<Rightarrow> parsed_output r)
         (List.enumerate k qs)"
proof (induction qs arbitrary: k acc)
  case Nil
  then show ?case by (simp add: List.map_filter_simps)
next
  case (Cons q qs)
  show ?case
  proof (cases "client k (prompt q)")
    case (Inl e)
    with Cons.prems show ?thesis by simp
  next
    case (Inr r)
    show ?thesis
    proof (cases "parsed_output r")
      case None
      with Inr Cons.prems have "generateMcqsFrom client nanoid (Suc k) acc qs = Inr mcqs"
        by simp
      from Cons.IH [OF this] Inr None show ?thesis
        by (simp add: List.map_filter_simps)
    next
      case (Some p)
      with Inr Cons.prems have
        "generateMcqsFrom client nanoid (Suc k)
           (acc @ [McqParsed.extend p \<lparr>mcq_id = nanoid (length acc)\<rparr>]) qs = Inr mcqs"
        by simp
      from Cons.IH [OF this] Inr Some show ?thesis
        by (simp add: List.map_filter_simps McqParsed.defs)
    qed
  qed
qed

text \<open>
  C3, as the code has it. When \<open>generateMcqs\<close> returns, the questions it returns are, in
  the order of the calls and up to the added id, the \<open>parsed_output\<close> values of the
  responses that have one; a response whose \<open>parsed_output\<close> is null adds no question.
  Neither the schema nor the loop looks at how many options there are or how many are
  marked correct.
\<close>

theorem generateMcqs_returns_parsed_outputs:
  assumes "generateMcqs client nanoid qs = Inr mcqs"
  shows "map McqParsed.truncate mcqs
     = List.map_filter
         (\<lambda>(i, q). case client i (prompt q) of Inl e \<Rightarrow> None | Inr r \<Rightarrow> parsed_output r)
         (List.enumerate 0 qs)"
  using generateMcqsFrom_parsed [of client nanoid 0 "[]" qs mcqs] assms
  by (simp add: generateMcqs_def)

theorem generateMcqs_returns_parsed_outputs_witness:
  "generateMcqs
      (\<lambda>k p. Inr \<lparr>parsed_output = (if k = 0 then None else Some threeOptionsParsed)\<rparr>)
      (\<lambda>n. js ''id'') [twoSum, twoSum]
     = Inr [McqParsed.extend threeOptionsParsed \<lparr>mcq_id = js ''id''\<rparr>]
   \<and> map McqParsed.truncate [McqParsed.extend threeOptionsParsed \<lparr>mcq_id = js ''id''\<rparr>]
       = [threeOptionsParsed]"
proof -
  let ?client = "\<lambda>(k::nat) (p::jsstring).
      (Inr \<lparr>parsed_output = (if k = 0 then None else Some threeOptionsParsed)\<rparr>
        :: error + parse_response)"
  have run: "generateMcqs ?client (\<lambda>n. js ''id'') [twoSum, twoSum]
     = Inr [McqParsed.extend threeOptionsParsed \<lparr>mcq_id = js ''id''\<rparr>]"
    by (simp add: generateMcqs_def)
  from generateMcqs_returns_parsed_outputs [OF run]
  have "map McqParsed.truncate [McqParsed.extend threeOptionsParsed \<lparr>mcq_id = js ''id''\<rparr>]
       = [threeOptionsParsed]"
    by (simp add: List.map_filter_simps enumerate_simps)
  with run show ?thesis by simp
qed

text \<open>
  A response with three options, two of them marked correct, passes the schema, and
  \<open>generateMcqs\<close> returns it as a question: a counterexample to C3 as the specification
  states it.
\<close>

theorem generateMcqs_accepts_three_options:
  "generateMcqs (\<lambda>k p. Inr \<lparr>parsed_output = McqQuestionSchema threeOptionsJson\<rparr>)
      (\<lambda>n. js ''id'') [twoSum]
     = Inr [McqParsed.extend threeOptionsParsed \<lparr>mcq_id = js ''id''\<rparr>]
   \<and> length (options (McqParsed.extend threeOptionsParsed \<lparr>mcq_id = js ''id''\<rparr>)) = 3
   \<and> length (filter is_correct
               (options (McqParsed.extend threeOptionsParsed \<lparr>mcq_id = js ''id''\<rparr>))) = 2"
  by (simp add: generateMcqs_def McqQuestionSchema_threeOptions)
     (simp add: McqParsed.defs threeOptionsParsed_def)

section \<open>Properties of the webhook\<close>

subsection \<open>Payloads with too few or too many fields\<close>

lemma split_not_empty: "split sep s \<noteq> []"
  by (induction s) (auto split: list.splits)

lemma length_split: "length (split sep s) = Suc (count_list s sep)"
proof (induction s)
  case Nil
  then show ?case by simp
next
  case (Cons c cs)
  then show ?case
    using split_not_empty [of sep cs] by (cases "split sep cs") auto
qed

lemma decode_few_fields:
  "count_list data 58 < 2 \<Longrightarrow> \<exists>ty answer. decodeCallbackData data = (ty, answer, None)"
  by (simp add: decodeCallbackData_def element_def length_split Let_def)

lemma sendTelegramMessage_db: "db (sendTelegramMessage env w msg) = db w"
  by (simp add: sendTelegramMessage_def split: fetch_result.splits)

lemma sendTelegramMessage_console:
  "\<exists>rest. console (sendTelegramMessage env w msg) = console w @ rest"
  by (simp add: sendTelegramMessage_def split: fetch_result.splits)

lemma answerCallbackQuery_frame:
  "db (snd (answerCallbackQuery env w i)) = db w
   \<and> console (snd (answerCallbackQuery env w i)) = console w"
  by (simp add: answerCallbackQuery_def split: fetch_result.splits)

lemma removeInlineKeyboard_frame:
  "db (snd (removeInlineKeyboard env w c a)) = db w
   \<and> console (snd (removeInlineKeyboard env w c a)) = console w"
  by (simp add: removeInlineKeyboard_def split: fetch_result.splits option.splits)

lemma handleAnswer_without_id:
  "db (handleAnswer env getStreak w answer None) = db w
   \<and> (\<exists>rest. console (handleAnswer env getStreak w answer None)
         = console w @ ErrorRecordingAttempt (Error (js ''Question not found'')) # rest)"
proof -
  let ?w = "w\<lparr>db := db w,
              console := console w @ [ErrorRecordingAttempt (Error (js ''Question not found''))]\<rparr>"
  have step: "handleAnswer env getStreak w answer None
          = sendTelegramMessage env ?w ErrorOccurred"
    by (simp add: handleAnswer_def recordAttemptCall_def)
  obtain rest where "console (sendTelegramMessage env ?w ErrorOccurred) = console ?w @ rest"
    using sendTelegramMessage_console by blast
  then have "console (handleAnswer env getStreak w answer None)
         = console w @ ErrorRecordingAttempt (Error (js ''Question not found'')) # rest"
    by (simp add: step)
  moreover have "db (handleAnswer env getStreak w answer None) = db w"
    by (simp add: step sendTelegramMessage_db)
  ultimately show ?thesis by blast
qed

text \<open>
  C6, as the code has it. When the data of a callback has fewer than two colons, so that
  no question id can be read from it, the handler leaves the database as it was, whatever
  the transport does; and when it gets as far as answering with status 200, it has logged
  the error of the failed recording.
\<close>

theorem webhook_short_payload_writes_nothing:
  assumes "callback_query body = Some callback"
    and "callback_data callback = Some data"
    and "count_list data 58 < 2"
  shows "db (snd (webhook env getStreak w body)) = db w
     \<and> (fst (webhook env getStreak w body) = Status 200 \<longrightarrow>
          (\<exists>rest. console (snd (webhook env getStreak w body))
             = console w @ ErrorRecordingAttempt (Error (js ''Question not found'')) # rest))"
proof -
  obtain ty answer where dec: "decodeCallbackData data = (ty, answer, None)"
    using decode_few_fields [OF assms(3)] by blast
  obtain r1 w1 where ack: "answerCallbackQuery env w (callback_id callback) = (r1, w1)"
    by (cases "answerCallbackQuery env w (callback_id callback)")
  obtain r2 w2 where edit: "removeInlineKeyboard env w1 callback answer = (r2, w2)"
    by (cases "removeInlineKeyboard env w1 callback answer")
  have w1: "db w1 = db w" "console w1 = console w"
    using answerCallbackQuery_frame [of env w "callback_id callback"] ack by simp_all
  have w2: "db w2 = db w" "console w2 = console w"
    using removeInlineKeyboard_frame [of env w1 callback answer] edit w1 by simp_all
  show ?thesis
  proof (cases r1)
    case (Inl e)
    with assms(1,2) dec ack w1 show ?thesis by (simp add: webhook_def)
  next
    case ack_ok: (Inr u)
    show ?thesis
    proof (cases r2)
      case (Inl e)
      with assms(1,2) dec ack ack_ok edit w2 show ?thesis by (simp add: webhook_def)
    next
      case (Inr u')
      with assms(1,2) dec ack ack_ok edit
      have "webhook env getStreak w body = (Status 200, handleAnswer env getStreak w2 answer None)"
        by (simp add: webhook_def)
      with handleAnswer_without_id [of env getStreak w2 answer] w2 show ?thesis by simp
    qed
  qed
qed

theorem webhook_short_payload_writes_nothing_witness:
  "callback_query \<lparr>callback_query = Some (exampleCallback\<lparr>callback_data := Some (js ''answer:A'')\<rparr>)\<rparr>
     = Some (exampleCallback\<lparr>callback_data := Some (js ''answer:A'')\<rparr>)
   \<and> callback_data (exampleCallback\<lparr>callback_data := Some (js ''answer:A'')\<rparr>)
       = Some (js ''answer:A'')
   \<and> count_list (js ''answer:A'') 58 < 2
   \<and> fst (webhook onlineEnv streakOne exampleWorld
            \<lparr>callback_query = Some (exampleCallback\<lparr>callback_data := Some (js ''answer:A'')\<rparr>)\<rparr>)
       = Status 200
   \<and> attempts (db (snd (webhook onlineEnv streakOne exampleWorld
            \<lparr>callback_query = Some (exampleCallback\<lparr>callback_data := Some (js ''answer:A'')\<rparr>)\<rparr>)))
       = []
   \<and> (\<exists>rest. console (snd (webhook onlineEnv streakOne exampleWorld
            \<lparr>callback_query = Some (exampleCallback\<lparr>callback_data := Some (js ''answer:A'')\<rparr>)\<rparr>))
         = ErrorRecordingAttempt (Error (js ''Question not found'')) # rest)"
proof -
  let ?cb = "exampleCallback\<lparr>callback_data := Some (js ''answer:A'')\<rparr>"
  let ?body = "\<lparr>callback_query = Some ?cb\<rparr>"
  have h1: "callback_query ?body = Some ?cb" by simp
  have h2: "callback_data ?cb = Some (js ''answer:A'')" by simp
  have h3: "count_list (js ''answer:A'') 58 < 2" by (simp add: js_def)
  have status: "fst (webhook onlineEnv streakOne exampleWorld ?body) = Status 200"
    by (simp add: webhook_def exampleCallback_def answerCallbackQuery_def
        removeInlineKeyboard_def onlineEnv_def split: prod.splits)
  from webhook_short_payload_writes_nothing [OF h1 h2 h3, of onlineEnv streakOne exampleWorld] status
  have "db (snd (webhook onlineEnv streakOne exampleWorld ?body)) = db exampleWorld"
    and "\<exists>rest. console (snd (webhook onlineEnv streakOne exampleWorld ?body))
         = console exampleWorld @ ErrorRecordingAttempt (Error (js ''Question not found'')) # rest"
    by simp_all
  then have "attempts (db (snd (webhook onlineEnv streakOne exampleWorld ?body))) = []"
    and "\<exists>rest. console (snd (webhook onlineEnv streakOne exampleWorld ?body))
         = ErrorRecordingAttempt (Error (js ''Question not found'')) # rest"
    by (simp_all add: exampleWorld_def exampleDb_def)
  with h1 h2 h3 status show ?thesis by blast
qed

lemma decode_four_fields:
  "decodeCallbackData (js ''answer:A:Q1:junk'') = (Some (js ''answer''), Some (js ''A''), Some (js ''Q1''))"
  by (simp add: decodeCallbackData_def element_def js_def)

text \<open>
  A payload of four fields is not of the specified form, and the handler records an
  attempt from its first three fields without logging anything: a counterexample to C6
  as the specification states it.
\<close>

theorem webhook_long_payload_writes_attempt:
  "\<not> wellFormedPayload (js ''answer:A:Q1:junk'')
   \<and> webhook onlineEnv streakOne exampleWorld
        \<lparr>callback_query = Some (exampleCallback\<lparr>callback_data := Some (js ''answer:A:Q1:junk'')\<rparr>)\<rparr>
     = (Status 200,
        \<lparr>db = exampleDb\<lparr>attempts :=
                [\<lparr>attempt_id = 1, question_id = js ''Q1'', selected_answer = js ''A'',
                  correct = 1, answered_at = 9\<rparr>],
              attempts_seq := 1\<rparr>,
         calls = [AnswerCallbackQuery (js ''cb1''),
                  EditMessageText 1 2 (js ''Which structure?'') (Some (js ''A'')),
                  SendMessage (CorrectWithStreak 1)],
         console = []\<rparr>)"
proof -
  have malformed: "\<not> wellFormedPayload (js ''answer:A:Q1:junk'')"
    by (simp add: wellFormedPayload_def js_def)
  have same: "toLowerCase (correct_answer exampleRow) = toLowerCase (js ''A'')"
    by (simp add: exampleRow_def)
  have rec: "recordAttemptCall 9 exampleDb (Some (js ''Q1'')) (Some (js ''A''))
      = (Inr \<lparr>res_question = exampleRow, res_correct = True\<rparr>,
         exampleDb\<lparr>attempts :=
                [\<lparr>attempt_id = 1, question_id = js ''Q1'', selected_answer = js ''A'',
                  correct = 1, answered_at = 9\<rparr>],
              attempts_seq := 1\<rparr>)"
    using recordAttempt_Some [OF getQuestion_exampleDb_Q1, of 9 "js ''A''"] same
    by (simp add: recordAttemptCall_def) (simp add: exampleDb_def)
  have "webhook onlineEnv streakOne exampleWorld
        \<lparr>callback_query = Some (exampleCallback\<lparr>callback_data := Some (js ''answer:A:Q1:junk'')\<rparr>)\<rparr>
     = (Status 200,
        \<lparr>db = exampleDb\<lparr>attempts :=
                [\<lparr>attempt_id = 1, question_id = js ''Q1'', selected_answer = js ''A'',
                  correct = 1, answered_at = 9\<rparr>],
              attempts_seq := 1\<rparr>,
         calls = [AnswerCallbackQuery (js ''cb1''),
                  EditMessageText 1 2 (js ''Which structure?'') (Some (js ''A'')),
                  SendMessage (CorrectWithStreak 1)],
         console = []\<rparr>)"
    by (simp add: webhook_def decode_four_fields exampleCallback_def answerCallbackQuery_def
        removeInlineKeyboard_def handleAnswer_def sendTelegramMessage_def onlineEnv_def
        exampleWorld_def rec streakOne_def)
  with malformed show ?thesis by simp
qed

subsection \<open>The status of the response\<close>

lemma webhook_status_200_when_transport_resolves:
  assumes "callback_query body = Some callback"
    and "callback_data callback = Some data"
    and "callback_message callback = Some m"
    and "answerCallbackQuery_fetch env = Resolves"
    and "editMessageText_fetch env = Resolves"
  shows "fst (webhook env getStreak w body) = Status 200"
  using assms
  by (simp add: webhook_def answerCallbackQuery_def removeInlineKeyboard_def split: prod.splits)

lemma webhook_status_200_without_callback:
  "callback_query body = None \<Longrightarrow> webhook env getStreak w body = (Status 200, w)"
  by (simp add: webhook_def)

text \<open>
  C9 at a failing input: an update with the callback of a button arrives while the
  \<open>fetch\<close> of \<open>answerCallbackQuery\<close> rejects. The rejection is not caught, the handler
  ends with it, no status is sent, and nothing else was done.
\<close>

theorem webhook_no_status_when_acknowledgment_rejects:
  "webhook offlineEnv streakOne exampleWorld \<lparr>callback_query = Some exampleCallback\<rparr>
     = (Unhandled fetchFailed, exampleWorld)"
  by (simp add: webhook_def exampleCallback_def answerCallbackQuery_def offlineEnv_def
      split: prod.splits)

section \<open>Properties of the streak\<close>

lemma walkBack_le: "walkBack localDate as n d \<le> n"
  by (induction n arbitrary: d) simp_all

lemma walkBack_days:
  "i < walkBack localDate as n d \<Longrightarrow> correctOnDay localDate as (d - int i)"
proof (induction n arbitrary: d i)
  case 0
  then show ?case by simp
next
  case (Suc n)
  from Suc.prems have today: "correctOnDay localDate as d"
    by (simp split: if_splits)
  show ?case
  proof (cases i)
    case 0
    with today show ?thesis by simp
  next
    case (Suc j)
    with Suc.prems today have "j < walkBack localDate as n (d - 1)"
      by simp
    from Suc.IH [OF this] Suc show ?thesis
      by (simp add: algebra_simps)
  qed
qed

lemma walkBack_stop:
  "walkBack localDate as n d < n \<Longrightarrow>
   \<not> correctOnDay localDate as (d - int (walkBack localDate as n d))"
proof (induction n arbitrary: d)
  case 0
  then show ?case by simp
next
  case (Suc n)
  show ?case
  proof (cases "correctOnDay localDate as d")
    case False
    then show ?thesis by simp
  next
    case True
    with Suc.prems have "walkBack localDate as n (d - 1) < n"
      by simp
    from Suc.IH [OF this] True show ?thesis
      by (simp add: algebra_simps)
  qed
qed

text \<open>Each day with a correct attempt needs an attempt of its own.\<close>

lemma days_need_attempts:
  assumes "\<forall>i<k. correctOnDay localDate as (d - int i)"
  shows "k \<le> length as"
proof -
  let ?days = "(\<lambda>i. d - int i) ` {..<k}"
  let ?answered = "(\<lambda>a. localDate (answered_at a)) ` set as"
  have "?days \<subseteq> ?answered"
  proof
    fix x assume "x \<in> ?days"
    then obtain i where "i < k" "x = d - int i" by auto
    with assms obtain a where "a \<in> set as" "localDate (answered_at a) = x"
      unfolding correctOnDay_def by blast
    then show "x \<in> ?answered" by force
  qed
  then have "card ?days \<le> card ?answered"
    by (intro card_mono) simp_all
  moreover have "card ?days = k"
    by (simp add: card_image inj_on_def)
  moreover have "card ?answered \<le> length as"
    using card_image_le [of "set as"] card_length [of as] by (meson List.finite_set le_trans)
  ultimately show ?thesis by simp
qed

lemma walkBack_long_enough:
  "\<not> correctOnDay localDate as (d - int (walkBack localDate as (length as) d))"
proof (cases "walkBack localDate as (length as) d < length as")
  case True
  then show ?thesis by (rule walkBack_stop)
next
  case False
  with walkBack_le [of localDate as "length as" d]
  have full: "walkBack localDate as (length as) d = length as"
    by simp
  show ?thesis
  proof
    assume last: "correctOnDay localDate as (d - int (walkBack localDate as (length as) d))"
    have "\<forall>i<Suc (length as). correctOnDay localDate as (d - int i)"
    proof (intro allI impI)
      fix i assume "i < Suc (length as)"
      then consider "i < length as" | "i = length as" by linarith
      then show "correctOnDay localDate as (d - int i)"
      proof cases
        case 1
        with full have "i < walkBack localDate as (length as) d" by simp
        then show ?thesis by (rule walkBack_days)
      next
        case 2
        with last full show ?thesis by simp
      qed
    qed
    from days_need_attempts [OF this] show False by simp
  qed
qed

text \<open>
  C5. The streak as of \<open>asOf\<close> is the number \<open>k\<close> such that each of the \<open>k\<close> local
  calendar days from the day of \<open>asOf\<close> backward has a correct attempt and the day before
  them has none; there is exactly one such number. In particular the streak is 0 when the
  day of \<open>asOf\<close> has no correct attempt.
\<close>

theorem getCurrentStreak_counts_consecutive_days:
  "(getCurrentStreak localDate d asOf = k \<longleftrightarrow>
      (\<forall>i<k. correctOnDay localDate (attempts d) (localDate asOf - int i))
      \<and> \<not> correctOnDay localDate (attempts d) (localDate asOf - int k))
   \<and> (\<not> correctOnDay localDate (attempts d) (localDate asOf) \<longrightarrow>
        getCurrentStreak localDate d asOf = 0)"
proof -
  let ?s = "getCurrentStreak localDate d asOf"
  let ?C = "\<lambda>i. correctOnDay localDate (attempts d) (localDate asOf - int i)"
  have run: "\<forall>i<?s. ?C i"
    by (simp add: getCurrentStreak_def walkBack_days)
  have stop: "\<not> ?C ?s"
    unfolding getCurrentStreak_def by (rule walkBack_long_enough)
  have unique: "?s = k" if days: "\<forall>i<k. ?C i" and gap: "\<not> ?C k" for k
  proof (rule ccontr)
    assume "?s \<noteq> k"
    then consider "?s < k" | "k < ?s" by linarith
    then show False
    proof cases
      case 1
      with days stop show False by simp
    next
      case 2
      with run gap show False by simp
    qed
  qed
  have "?s = k \<longleftrightarrow> (\<forall>i<k. ?C i) \<and> \<not> ?C k"
    using run stop unique by blast
  moreover have "?s = 0" if "\<not> ?C 0"
    using unique [of 0] that by simp
  ultimately show ?thesis by simp
qed

theorem getCurrentStreak_counts_consecutive_days_witness:
  "correctOnDay utcDay (attempts streakDb) 13
   \<and> \<not> correctOnDay utcDay (attempts streakDb) 12
   \<and> utcDay (13 * 86400 + 3600) = 13
   \<and> getCurrentStreak utcDay streakDb (13 * 86400 + 3600) = 1
   \<and> getCurrentStreak utcDay streakDb (12 * 86400 + 3600) = 0"
proof -
  have today: "utcDay (13 * 86400 + 3600) = 13" "utcDay (12 * 86400 + 3600) = 12"
    by (simp_all add: utcDay_def)
  have day13: "correctOnDay utcDay (attempts streakDb) 13"
    by (simp add: correctOnDay_def streakDb_def utcDay_def)
  have day12: "\<not> correctOnDay utcDay (attempts streakDb) 12"
    by (simp add: correctOnDay_def streakDb_def utcDay_def)
  have "(\<forall>i<1. correctOnDay utcDay (attempts streakDb) (utcDay (13 * 86400 + 3600) - int i))
      \<and> \<not> correctOnDay utcDay (attempts streakDb) (utcDay (13 * 86400 + 3600) - int 1)"
    using day13 day12 today by simp
  with getCurrentStreak_counts_consecutive_days [of utcDay streakDb "13 * 86400 + 3600" 1]
  have one: "getCurrentStreak utcDay streakDb (13 * 86400 + 3600) = 1"
    by blast
  from getCurrentStreak_counts_consecutive_days [of utcDay streakDb "12 * 86400 + 3600" 0]
    day12 today
  have zero: "getCurrentStreak utcDay streakDb (12 * 86400 + 3600) = 0"
    by simp
  from day13 day12 today one zero show ?thesis by simp
qed

end
